theory Spec2Isabelle
  imports Complex_Main "HOL-Library.AList" "HOL-Library.Sublist" "HOL-Library.Multiset"
begin

section \<open>Python values and documents\<close>

text \<open>
  A document is a Python \<open>dict\<close> from field names to values. It is kept as an association
  list in insertion order: \<open>AList.update\<close> overwrites a key in place or appends a new one at
  the end, as item assignment on a \<open>dict\<close> does, and \<open>AList.delete\<close> is \<open>pop\<close>.
  A finite Python float is modelled as the real number it denotes, and arithmetic on
  floats as exact arithmetic that leaves the finite range the way floats do: a result
  whose magnitude reaches \<open>float_bound\<close> is infinite, or raises \<open>OverflowError\<close> where
  Python raises. Rounding inside the finite range, NaN, and infinities that are stored in
  a document or passed in a request are outside this model.
\<close>

datatype pyval =
    PNone
  | PBool bool
  | PInt int
  | PFloat real
  | PStr string
  | PObjectId string
  | PList "pyval list"
  | PDict "(string \<times> pyval) list"

type_synonym doc = "(string \<times> pyval) list"

text \<open>
  The library functions whose result is not computed here are parameters of the model:
  \<open>str_other\<close> is \<open>str(v)\<close> on a value that is neither a string nor an ObjectId,
  \<open>float_of_str\<close> is \<open>float(s)\<close> on a string that denotes a finite float, \<open>None\<close> standing
  for \<open>ValueError\<close>, and
  \<open>http_url_ok\<close> says whether the validation library takes a string as an \<open>HttpUrl\<close>.
\<close>

record pylib =
  str_other :: "pyval \<Rightarrow> string"
  float_of_str :: "string \<Rightarrow> real option"
  http_url_ok :: "string \<Rightarrow> bool"

definition py_str :: "pylib \<Rightarrow> pyval \<Rightarrow> string" where
  "py_str env v = (case v of PStr s \<Rightarrow> s | PObjectId h \<Rightarrow> h | _ \<Rightarrow> str_other env v)"

subsection \<open>The float range\<close>

text \<open>
  The least magnitude that rounds to an infinity in binary64: every real below it rounds
  to a finite float, the largest of which is \<open>2\<^sup>1\<^sup>0\<^sup>2\<^sup>4 - 2\<^sup>9\<^sup>7\<^sup>1\<close>.
\<close>

definition float_bound :: real where
  "float_bound = 2 ^ 1024 - 2 ^ 970"

text \<open>A float that is not negative: a finite one or \<open>+inf\<close>, ordered as Python compares them.\<close>

datatype pyfloat = Finite real | Infinity

instantiation pyfloat :: linorder
begin

definition less_eq_pyfloat :: "pyfloat \<Rightarrow> pyfloat \<Rightarrow> bool" where
  "less_eq_pyfloat x y =
     (case y of
        Infinity \<Rightarrow> True
      | Finite b \<Rightarrow> (case x of Infinity \<Rightarrow> False | Finite a \<Rightarrow> a \<le> b))"

definition less_pyfloat :: "pyfloat \<Rightarrow> pyfloat \<Rightarrow> bool" where
  "less_pyfloat x y = (x \<le> y \<and> \<not> y \<le> x)"

instance
  by standard (auto simp: less_eq_pyfloat_def less_pyfloat_def split: pyfloat.splits)

end

text \<open>
  \<open>(x - y) ** 2\<close> on finite floats. A difference that leaves the finite range is an
  infinity, and the square of an infinity is \<open>+inf\<close>; the square of a finite difference
  raises \<open>OverflowError\<close> (the result \<open>None\<close>) when it leaves the finite range.
\<close>

definition float_sq_diff :: "real \<Rightarrow> real \<Rightarrow> pyfloat option" where
  "float_sq_diff x y =
     (if float_bound \<le> \<bar>x - y\<bar> then Some Infinity
      else if float_bound \<le> (x - y)\<^sup>2 then None
      else Some (Finite ((x - y)\<^sup>2)))"

text \<open>\<open>s + t\<close> on floats that are not negative: a sum that leaves the finite range is \<open>+inf\<close>.\<close>

definition float_add :: "pyfloat \<Rightarrow> pyfloat \<Rightarrow> pyfloat" where
  "float_add s t =
     (case s of
        Infinity \<Rightarrow> Infinity
      | Finite a \<Rightarrow>
          (case t of
             Infinity \<Rightarrow> Infinity
           | Finite b \<Rightarrow> if float_bound \<le> a + b then Infinity else Finite (a + b)))"

text \<open>
  \<open>float(v)\<close>; \<open>None\<close> stands for the \<open>TypeError\<close>, \<open>ValueError\<close> or \<open>OverflowError\<close>
  it raises. An integer too large for a float raises \<open>OverflowError\<close>.
\<close>

definition py_float :: "pylib \<Rightarrow> pyval \<Rightarrow> real option" where
  "py_float env v =
     (case v of
        PBool b \<Rightarrow> Some (if b then 1 else 0)
      | PInt i \<Rightarrow> (if float_bound \<le> \<bar>of_int i\<bar> then None else Some (of_int i))
      | PFloat r \<Rightarrow> Some r
      | PStr s \<Rightarrow> float_of_str env s
      | _ \<Rightarrow> None)"

definition isinstance_ObjectId :: "pyval \<Rightarrow> bool" where
  "isinstance_ObjectId v = (case v of PObjectId _ \<Rightarrow> True | _ \<Rightarrow> False)"

text \<open>\<open>d.get(k, default)\<close>\<close>

definition dict_get :: "doc \<Rightarrow> string \<Rightarrow> pyval \<Rightarrow> pyval" where
  "dict_get d k dflt = (case map_of d k of None \<Rightarrow> dflt | Some v \<Rightarrow> v)"

text \<open>\<open>xs[:k]\<close>: a negative bound counts from the end.\<close>

definition py_slice_to :: "'a list \<Rightarrow> int \<Rightarrow> 'a list" where
  "py_slice_to xs k = (if k < 0 then take (length xs - nat (- k)) xs else take (nat k) xs)"

section \<open>serialize_doc\<close>

text \<open>The loop over \<open>list(doc.items())\<close> that writes \<open>str(v)\<close> over every ObjectId value.\<close>

fun serialize_loop :: "pylib \<Rightarrow> (string \<times> pyval) list \<Rightarrow> doc \<Rightarrow> doc" where
  "serialize_loop env [] d = d"
| "serialize_loop env ((k, v) # items) d =
     serialize_loop env items
       (if isinstance_ObjectId v then AList.update k (PStr (py_str env v)) d else d)"

definition serialize_doc :: "pylib \<Rightarrow> doc \<Rightarrow> doc" where
  "serialize_doc env d =
     (if d = [] then d
      else
        let d1 = (case map_of d ''_id'' of
                    Some v \<Rightarrow> AList.update ''id'' (PStr (py_str env v)) (AList.delete ''_id'' d)
                  | None \<Rightarrow> d)
        in serialize_loop env d1 d1)"

section \<open>The document store\<close>

datatype exn = PyException (exn_str: string)

text \<open>
  Modelled from the spec: the module \<open>database\<close> (\<open>db\<close>, \<open>create_document\<close>,
  \<open>get_documents\<close>) is not among the sources. The spec calls every query a direct
  pass-through to the document database's filter, find and insert primitives, so the
  store is a set of named collections, each a list of documents in insertion order.
  \<open>next_oid\<close> numbers the ObjectIds the store hands out, and \<open>faults\<close> schedules the
  outcome of the coming inserts: \<open>Some e\<close> makes the next insert raise \<open>e\<close>.
\<close>

record world =
  colls :: "string \<Rightarrow> doc list"
  next_oid :: nat
  faults :: "exn option list"

subsection \<open>Filters\<close>

text \<open>
  A filter is the Python dict that the handler builds, so it is a document too. The
  matcher covers the operators that the handlers use: equality with a string or
  an ObjectId, \<open>$gte\<close>, \<open>$lte\<close>, \<open>$regex\<close> with \<open>$options\<close>, and a top-level \<open>$or\<close>. Its
  answer is \<open>None\<close> where the query or the stored value is outside that fragment
  (other operators, dotted paths, array-valued fields, which the database matches
  element by element, and regular expressions beyond literal characters and the dot).
\<close>

datatype ratom = AnyChar | Lit char

definition regex_special :: "char \<Rightarrow> bool" where
  "regex_special c = (c \<in> set ''^$|?*+()[]{}'' \<or> c = CHR 0x5C)"

fun regex_compile :: "string \<Rightarrow> ratom list option" where
  "regex_compile [] = Some []"
| "regex_compile (c # cs) =
     (if c = CHR ''.'' then map_option (Cons AnyChar) (regex_compile cs)
      else if regex_special c then None
      else map_option (Cons (Lit c)) (regex_compile cs))"

text \<open>ASCII case folding.\<close>

definition lower :: "char \<Rightarrow> char" where
  "lower c =
     (case map_of (zip ''ABCDEFGHIJKLMNOPQRSTUVWXYZ'' ''abcdefghijklmnopqrstuvwxyz'') c of
        None \<Rightarrow> c
      | Some l \<Rightarrow> l)"

definition atom_ok :: "bool \<Rightarrow> ratom \<Rightarrow> char \<Rightarrow> bool" where
  "atom_ok ci a c =
     (case a of
        AnyChar \<Rightarrow> c \<noteq> CHR 0x0A
      | Lit l \<Rightarrow> (if ci then lower l = lower c else l = c))"

fun match_here :: "bool \<Rightarrow> ratom list \<Rightarrow> string \<Rightarrow> bool" where
  "match_here ci [] s = True"
| "match_here ci (a # as) [] = False"
| "match_here ci (a # as) (c # cs) = (atom_ok ci a c \<and> match_here ci as cs)"

fun regex_search :: "bool \<Rightarrow> ratom list \<Rightarrow> string \<Rightarrow> bool" where
  "regex_search ci as [] = match_here ci as []"
| "regex_search ci as (c # cs) = (match_here ci as (c # cs) \<or> regex_search ci as cs)"

definition regex_field :: "string \<Rightarrow> string \<Rightarrow> pyval option \<Rightarrow> bool option" where
  "regex_field opts pat x =
     (if opts \<noteq> ''i'' \<and> opts \<noteq> [] then None
      else case regex_compile pat of
        None \<Rightarrow> None
      | Some as \<Rightarrow>
          (case x of
             Some (PStr s) \<Rightarrow> Some (regex_search (opts = ''i'') as s)
           | Some (PList _) \<Rightarrow> None
           | _ \<Rightarrow> Some False))"

definition num_of :: "pyval \<Rightarrow> real option" where
  "num_of v = (case v of PInt i \<Rightarrow> Some (of_int i) | PFloat r \<Rightarrow> Some r | _ \<Rightarrow> None)"

definition compare_num :: "(real \<Rightarrow> real \<Rightarrow> bool) \<Rightarrow> pyval option \<Rightarrow> pyval \<Rightarrow> bool option" where
  "compare_num rel x b =
     (case num_of b of
        None \<Rightarrow> None
      | Some bv \<Rightarrow>
          (case x of
             None \<Rightarrow> Some False
           | Some (PList _) \<Rightarrow> None
           | Some v \<Rightarrow> (case num_of v of None \<Rightarrow> Some False | Some a \<Rightarrow> Some (rel a bv))))"

definition all_opt :: "bool option list \<Rightarrow> bool option" where
  "all_opt bs = map_option (list_all id) (those bs)"

definition any_opt :: "bool option list \<Rightarrow> bool option" where
  "any_opt bs = map_option (list_ex id) (those bs)"

definition match_op :: "doc \<Rightarrow> pyval option \<Rightarrow> string \<times> pyval \<Rightarrow> bool option" where
  "match_op ops x kv =
     (let k = fst kv; b = snd kv in
      if k = ''$gte'' then compare_num (\<lambda>a bv. bv \<le> a) x b
      else if k = ''$lte'' then compare_num (\<lambda>a bv. a \<le> bv) x b
      else if k = ''$regex'' then
        (case b of
           PStr pat \<Rightarrow>
             (case dict_get ops ''$options'' (PStr []) of
                PStr opts \<Rightarrow> regex_field opts pat x
              | _ \<Rightarrow> None)
         | _ \<Rightarrow> None)
      else if k = ''$options'' then (if map_of ops ''$regex'' = None then None else Some True)
      else None)"

definition is_operator :: "string \<Rightarrow> bool" where
  "is_operator k = (case k of [] \<Rightarrow> False | c # _ \<Rightarrow> c = CHR ''$'')"

definition match_condition :: "pyval option \<Rightarrow> pyval \<Rightarrow> bool option" where
  "match_condition x v =
     (case v of
        PDict ops \<Rightarrow>
          (if ops \<noteq> [] \<and> list_all (\<lambda>kv. is_operator (fst kv)) ops
           then all_opt (map (match_op ops x) ops) else None)
      | PStr s \<Rightarrow> (case x of Some (PList _) \<Rightarrow> None | _ \<Rightarrow> Some (x = Some (PStr s)))
      | PObjectId h \<Rightarrow> (case x of Some (PList _) \<Rightarrow> None | _ \<Rightarrow> Some (x = Some (PObjectId h)))
      | _ \<Rightarrow> None)"

definition match_field :: "doc \<Rightarrow> string \<times> pyval \<Rightarrow> bool option" where
  "match_field d kv =
     (let k = fst kv in
      if k = [] \<or> is_operator k \<or> CHR ''.'' \<in> set k then None
      else match_condition (map_of d k) (snd kv))"

definition match_flat :: "doc \<Rightarrow> pyval \<Rightarrow> bool option" where
  "match_flat d f = (case f of PDict ff \<Rightarrow> all_opt (map (match_field d) ff) | _ \<Rightarrow> None)"

definition match_clause :: "doc \<Rightarrow> string \<times> pyval \<Rightarrow> bool option" where
  "match_clause d kv =
     (if fst kv = ''$or'' then
        (case snd kv of
           PList fs \<Rightarrow> (if fs = [] then None else any_opt (map (match_flat d) fs))
         | _ \<Rightarrow> None)
      else match_field d kv)"

definition match_filter :: "doc \<Rightarrow> doc \<Rightarrow> bool option" where
  "match_filter f d = all_opt (map (match_clause d) f)"

fun find_docs :: "doc \<Rightarrow> doc list \<Rightarrow> doc list option" where
  "find_docs f [] = Some []"
| "find_docs f (d # ds) =
     (case match_filter f d of
        None \<Rightarrow> None
      | Some b \<Rightarrow> map_option (\<lambda>r. if b then d # r else r) (find_docs f ds))"

text \<open>\<open>cursor.limit(n)\<close>: zero means no limit, and a negative \<open>n\<close> caps at \<open>-n\<close>.\<close>

definition cursor_limit :: "int option \<Rightarrow> 'a list \<Rightarrow> 'a list" where
  "cursor_limit limit xs =
     (case limit of None \<Rightarrow> xs | Some n \<Rightarrow> if n = 0 then xs else take (nat \<bar>n\<bar>) xs)"

text \<open>
  Modelled from the spec: \<open>get_documents(collection, filter, limit)\<close> of the module
  \<open>database\<close>. The spec has the handlers forward the filter dictionary to the
  collection with a capped result limit: the documents of the collection that match
  the filter, in stored order, at most \<open>limit\<close> of them. \<open>None\<close> is a query outside the
  modelled fragment.
\<close>

definition get_documents :: "world \<Rightarrow> string \<Rightarrow> doc \<Rightarrow> int option \<Rightarrow> doc list option" where
  "get_documents w name f limit = map_option (cursor_limit limit) (find_docs f (colls w name))"

section \<open>Handlers\<close>

datatype 'a http =
    Response nat 'a
  | HTTPException nat string
  | RequestValidationError "string list"
  | InternalServerError exn
  | OutsideModel

definition status_code :: "'a http \<Rightarrow> nat option" where
  "status_code r =
     (case r of
        Response s _ \<Rightarrow> Some s
      | HTTPException s _ \<Rightarrow> Some s
      | RequestValidationError _ \<Rightarrow> Some 422
      | InternalServerError _ \<Rightarrow> Some 500
      | OutsideModel \<Rightarrow> None)"

text \<open>
  \<open>Query(default=dflt, ge=lo, le=hi)\<close> on an integer parameter: an absent parameter
  takes the default, a supplied one is checked against the bounds, and \<open>None\<close> is the
  framework's 422.
\<close>

definition query_int :: "int \<Rightarrow> int \<Rightarrow> int \<Rightarrow> int option \<Rightarrow> int option" where
  "query_int dflt lo hi given =
     (case given of
        None \<Rightarrow> Some dflt
      | Some v \<Rightarrow> if lo \<le> v \<and> v \<le> hi then Some v else None)"

subsection \<open>nearby_stations\<close>

text \<open>
  The sort key. The operands of the sum are evaluated from left to right, and every
  exception on the way (a failing \<open>float\<close>, an overflowing square) gives the key \<open>1e12\<close>.
\<close>

definition dist2 :: "pylib \<Rightarrow> real \<Rightarrow> real \<Rightarrow> doc \<Rightarrow> pyfloat" where
  "dist2 env lat lng d =
     (case py_float env (dict_get d ''latitude'' (PInt 0)) of
        None \<Rightarrow> Finite 1000000000000
      | Some a \<Rightarrow>
          (case float_sq_diff a lat of
             None \<Rightarrow> Finite 1000000000000
           | Some s1 \<Rightarrow>
               (case py_float env (dict_get d ''longitude'' (PInt 0)) of
                  None \<Rightarrow> Finite 1000000000000
                | Some b \<Rightarrow>
                    (case float_sq_diff b lng of
                       None \<Rightarrow> Finite 1000000000000
                     | Some s2 \<Rightarrow> float_add s1 s2))))"

definition nearby_stations ::
  "pylib \<Rightarrow> world \<Rightarrow> real \<Rightarrow> real \<Rightarrow> int option \<Rightarrow> doc list http" where
  "nearby_stations env w lat lng limit =
     (case query_int 10 1 100 limit of
        None \<Rightarrow> RequestValidationError [''limit'']
      | Some cap \<Rightarrow>
          (case get_documents w ''station'' [] None of
             None \<Rightarrow> OutsideModel
           | Some docs \<Rightarrow>
               Response 200
                 (map (serialize_doc env) (py_slice_to (sort_key (dist2 env lat lng) docs) cap))))"

subsection \<open>list_stations and list_recommendations\<close>

text \<open>Truthiness of an optional string and of an optional float.\<close>

definition truthy_str :: "string option \<Rightarrow> bool" where
  "truthy_str s = (case s of None \<Rightarrow> False | Some t \<Rightarrow> t \<noteq> [])"

definition truthy_float :: "real option \<Rightarrow> bool" where
  "truthy_float r = (case r of None \<Rightarrow> False | Some x \<Rightarrow> x \<noteq> 0)"

definition regex_clause :: "string \<Rightarrow> string \<Rightarrow> pyval" where
  "regex_clause field q = PDict [(field, PDict [(''$regex'', PStr q), (''$options'', PStr ''i'')])]"

definition range_clause :: "real \<Rightarrow> real \<Rightarrow> pyval" where
  "range_clause lo hi = PDict [(''$gte'', PFloat lo), (''$lte'', PFloat hi)]"

text \<open>The \<open>filter_dict\<close> that \<open>list_stations\<close> builds before it queries the store.\<close>

definition list_stations_filter ::
  "string option \<Rightarrow> string option \<Rightarrow> real option \<Rightarrow> real option \<Rightarrow> real option \<Rightarrow> doc" where
  "list_stations_filter type' query lat lng radius_km =
     (let f0 = [];
          f1 = (if truthy_str type' then AList.update ''type'' (PStr (the type')) f0 else f0);
          f2 = (if truthy_str query
                then AList.update ''$or''
                       (PList [regex_clause ''name'' (the query),
                               regex_clause ''address'' (the query)]) f1
                else f1)
      in if lat \<noteq> None \<and> lng \<noteq> None \<and> truthy_float radius_km
         then
           let dlat = the radius_km / 111;
               dlng = the radius_km / 111
           in AList.update ''longitude'' (range_clause (the lng - dlng) (the lng + dlng))
                (AList.update ''latitude'' (range_clause (the lat - dlat) (the lat + dlat)) f2)
         else f2)"

definition list_stations ::
  "pylib \<Rightarrow> world \<Rightarrow> string option \<Rightarrow> string option \<Rightarrow> int option \<Rightarrow>
     real option \<Rightarrow> real option \<Rightarrow> real option \<Rightarrow> doc list http" where
  "list_stations env w type' query limit lat lng radius_km =
     (case query_int 50 1 200 limit of
        None \<Rightarrow> RequestValidationError [''limit'']
      | Some cap \<Rightarrow>
          (case get_documents w ''station''
                  (list_stations_filter type' query lat lng radius_km) (Some cap) of
             None \<Rightarrow> OutsideModel
           | Some docs \<Rightarrow> Response 200 (map (serialize_doc env) docs)))"

definition list_recommendations :: "pylib \<Rightarrow> world \<Rightarrow> int option \<Rightarrow> doc list http" where
  "list_recommendations env w limit =
     (case query_int 20 1 100 limit of
        None \<Rightarrow> RequestValidationError [''limit'']
      | Some cap \<Rightarrow>
          (case get_documents w ''recommendation'' [] (Some cap) of
             None \<Rightarrow> OutsideModel
           | Some docs \<Rightarrow> Response 200 (map (serialize_doc env) docs)))"

section \<open>Schemas\<close>

text \<open>
  The request body after the framework has read its JSON: each field has the type the
  schema declares, and \<open>validate_Station\<close> checks the constraints the schema puts on
  the values. Its error is the list of the fields that fail, in schema order.
\<close>

record Station =
  st_name :: string
  st_type :: string
  st_address :: string
  st_latitude :: real
  st_longitude :: real
  st_rating :: "real option"
  st_review_count :: "int option"
  st_phone :: "string option"
  st_website :: "string option"
  st_hours :: "string option"
  st_services :: "string list option"

definition StationType :: "string list" where
  "StationType = [''dump'', ''recycling'', ''ewaste'', ''compost'', ''hazmat'']"

definition Station_errors :: "pylib \<Rightarrow> Station \<Rightarrow> string list" where
  "Station_errors env p =
     (if st_type p \<in> set StationType then [] else [''type''])
     @ (if - 90 \<le> st_latitude p \<and> st_latitude p \<le> 90 then [] else [''latitude''])
     @ (if - 180 \<le> st_longitude p \<and> st_longitude p \<le> 180 then [] else [''longitude''])
     @ (case st_rating p of
          None \<Rightarrow> []
        | Some r \<Rightarrow> if 0 \<le> r \<and> r \<le> 5 then [] else [''rating''])
     @ (case st_review_count p of
          None \<Rightarrow> []
        | Some n \<Rightarrow> if 0 \<le> n then [] else [''review_count''])
     @ (case st_website p of
          None \<Rightarrow> []
        | Some u \<Rightarrow> if http_url_ok env u then [] else [''website''])"

definition validate_Station :: "pylib \<Rightarrow> Station \<Rightarrow> string list + Station" where
  "validate_Station env p = (if Station_errors env p = [] then Inr p else Inl (Station_errors env p))"

record Recommendation =
  rc_title :: string
  rc_description :: "string option"
  rc_image :: "string option"
  rc_station_id :: "string option"
  rc_tags :: "string list"

record RecommendationFeedback =
  fb_item_id :: string
  fb_action :: string
  fb_reason :: "string option"
  fb_user_id :: "string option"

definition Feedback_errors :: "RecommendationFeedback \<Rightarrow> string list" where
  "Feedback_errors p = (if fb_action p \<in> set [''up'', ''down''] then [] else [''action''])"

definition opt_val :: "('a \<Rightarrow> pyval) \<Rightarrow> 'a option \<Rightarrow> pyval" where
  "opt_val f x = (case x of None \<Rightarrow> PNone | Some v \<Rightarrow> f v)"

text \<open>
  Modelled from the spec: the dictionaries that the absent \<open>create_document\<close> stores
  for a schema object. The spec has the stored documents mirror the schemas, so each is
  the object's fields in schema order.
\<close>

definition Station_dump :: "Station \<Rightarrow> doc" where
  "Station_dump p =
     [(''name'', PStr (st_name p)),
      (''type'', PStr (st_type p)),
      (''address'', PStr (st_address p)),
      (''latitude'', PFloat (st_latitude p)),
      (''longitude'', PFloat (st_longitude p)),
      (''rating'', opt_val PFloat (st_rating p)),
      (''review_count'', opt_val PInt (st_review_count p)),
      (''phone'', opt_val PStr (st_phone p)),
      (''website'', opt_val PStr (st_website p)),
      (''hours'', opt_val PStr (st_hours p)),
      (''services'', opt_val (\<lambda>xs. PList (map PStr xs)) (st_services p))]"

definition Recommendation_dump :: "Recommendation \<Rightarrow> doc" where
  "Recommendation_dump p =
     [(''title'', PStr (rc_title p)),
      (''description'', opt_val PStr (rc_description p)),
      (''image'', opt_val PStr (rc_image p)),
      (''station_id'', opt_val PStr (rc_station_id p)),
      (''tags'', PList (map PStr (rc_tags p)))]"

definition Feedback_dump :: "RecommendationFeedback \<Rightarrow> doc" where
  "Feedback_dump p =
     [(''item_id'', PStr (fb_item_id p)),
      (''action'', PStr (fb_action p)),
      (''reason'', opt_val PStr (fb_reason p)),
      (''user_id'', opt_val PStr (fb_user_id p))]"

section \<open>Inserting\<close>

definition hex_alphabet :: string where
  "hex_alphabet = ''0123456789abcdef''"

definition hexdigit :: "nat \<Rightarrow> char" where
  "hexdigit k = hex_alphabet ! (k mod 16)"

definition hex24 :: "nat \<Rightarrow> string" where
  "hex24 n = map (\<lambda>i. hexdigit (n div 16 ^ i)) (rev [0..<24])"

definition is_hex :: "char \<Rightarrow> bool" where
  "is_hex c = (c \<in> set ''0123456789abcdefABCDEF'')"

text \<open>
  \<open>ObjectId(s)\<close> on a string: 24 hexadecimal digits, kept in lower case; anything else
  raises \<open>InvalidId\<close>.
\<close>

definition py_ObjectId :: "string \<Rightarrow> exn + pyval" where
  "py_ObjectId s =
     (if length s = 24 \<and> list_all is_hex s then Inr (PObjectId (map lower s))
      else Inl (PyException (CHR 0x27 # s @ CHR 0x27 #
             '' is not a valid ObjectId, it must be a 12-byte input or a 24-character hex string'')))"

text \<open>
  Modelled from the spec: the store's insert primitive. A scheduled fault is raised and
  leaves the collections as they are; otherwise the document is appended to its
  collection, with a fresh ObjectId under \<open>_id\<close> unless it brings an \<open>_id\<close> of its own.
\<close>

definition insert_one :: "world \<Rightarrow> string \<Rightarrow> doc \<Rightarrow> (exn + pyval) \<times> world" where
  "insert_one w name d =
     (case faults w of
        Some e # rest \<Rightarrow> (Inl e, w\<lparr>faults := rest\<rparr>)
      | _ \<Rightarrow>
          let oid = (case map_of d ''_id'' of
                       Some v \<Rightarrow> v
                     | None \<Rightarrow> PObjectId (hex24 (next_oid w)));
              stored = AList.update ''_id'' oid d
          in (Inr oid,
              w\<lparr>colls := (colls w)(name := colls w name @ [stored]),
                next_oid := Suc (next_oid w),
                faults := tl (faults w)\<rparr>))"

text \<open>
  Modelled from the spec: \<open>create_document(collection, data)\<close> of the module
  \<open>database\<close>, which inserts the dictionary of a schema object and returns the string
  form of the new document's id.
\<close>

definition create_document :: "pylib \<Rightarrow> world \<Rightarrow> string \<Rightarrow> doc \<Rightarrow> (exn + string) \<times> world" where
  "create_document env w name d =
     (case insert_one w name d of
        (Inl e, w') \<Rightarrow> (Inl e, w')
      | (Inr oid, w') \<Rightarrow> (Inr (py_str env oid), w'))"

text \<open>
  Modelled from the spec: \<open>find_one\<close> and \<open>count_documents\<close> of the store. The outer
  \<open>None\<close> is a query outside the modelled fragment; \<open>find_one\<close> answers \<open>Some None\<close>
  when no document matches.
\<close>

definition find_one :: "world \<Rightarrow> string \<Rightarrow> doc \<Rightarrow> doc option option" where
  "find_one w name f =
     map_option (\<lambda>ds. case ds of [] \<Rightarrow> None | d # _ \<Rightarrow> Some d) (find_docs f (colls w name))"

definition count_documents :: "world \<Rightarrow> string \<Rightarrow> doc \<Rightarrow> nat option" where
  "count_documents w name f = map_option length (find_docs f (colls w name))"

subsection \<open>create_station and submit_feedback\<close>

text \<open>
  The body of both handlers: everything in the \<open>try\<close> block that raises becomes an
  \<open>HTTPException\<close> with status 400 and the string of the exception. \<open>serialize_doc\<close>
  returns a \<open>None\<close> document as it is.
\<close>

definition insert_and_fetch ::
  "pylib \<Rightarrow> world \<Rightarrow> string \<Rightarrow> doc \<Rightarrow> doc option http \<times> world" where
  "insert_and_fetch env w name d =
     (case create_document env w name d of
        (Inl e, w') \<Rightarrow> (HTTPException 400 (exn_str e), w')
      | (Inr inserted_id, w') \<Rightarrow>
          (case py_ObjectId inserted_id of
             Inl e \<Rightarrow> (HTTPException 400 (exn_str e), w')
           | Inr oid \<Rightarrow>
               (case find_one w' name [(''_id'', oid)] of
                  None \<Rightarrow> (OutsideModel, w')
                | Some found \<Rightarrow> (Response 201 (map_option (serialize_doc env) found), w'))))"

definition create_station :: "pylib \<Rightarrow> world \<Rightarrow> Station \<Rightarrow> doc option http \<times> world" where
  "create_station env w payload = insert_and_fetch env w ''station'' (Station_dump payload)"

definition submit_feedback ::
  "pylib \<Rightarrow> world \<Rightarrow> RecommendationFeedback \<Rightarrow> doc option http \<times> world" where
  "submit_feedback env w payload =
     insert_and_fetch env w ''recommendationfeedback'' (Feedback_dump payload)"

text \<open>The route: the framework validates the body against the schema before the handler runs.\<close>

definition post_station :: "pylib \<Rightarrow> world \<Rightarrow> Station \<Rightarrow> doc option http \<times> world" where
  "post_station env w body =
     (case validate_Station env body of
        Inl errs \<Rightarrow> (RequestValidationError errs, w)
      | Inr payload \<Rightarrow> create_station env w payload)"

subsection \<open>seed_sample_data\<close>

record SeedResult =
  inserted :: int

definition sample_stations :: "Station list" where
  "sample_stations =
     [\<lparr>st_name = ''GreenCycle Center'', st_type = ''recycling'', st_address = ''123 Elm St'',
       st_latitude = 37.7749, st_longitude = - 122.4194, st_rating = Some 4.7,
       st_review_count = Some 128, st_phone = None, st_website = None, st_hours = None,
       st_services = Some [''plastic'', ''paper'', ''metal'']\<rparr>,
      \<lparr>st_name = ''City Dump Yard'', st_type = ''dump'', st_address = ''45 Industrial Rd'',
       st_latitude = 37.78, st_longitude = - 122.41, st_rating = Some 4.1,
       st_review_count = Some 63, st_phone = None, st_website = None, st_hours = None,
       st_services = Some [''bulk'', ''construction'']\<rparr>,
      \<lparr>st_name = ''Tech E-Waste Depot'', st_type = ''ewaste'', st_address = ''9 Silicon Ave'',
       st_latitude = 37.76, st_longitude = - 122.42, st_rating = Some 4.8,
       st_review_count = Some 204, st_phone = None, st_website = None, st_hours = None,
       st_services = Some [''electronics'', ''batteries'']\<rparr>]"

definition sample_recommendations :: "Recommendation list" where
  "sample_recommendations =
     [\<lparr>rc_title = ''Recycle plastics today'',
       rc_description = Some ''Drop-off at GreenCycle before 6pm'', rc_image = None,
       rc_station_id = None, rc_tags = [''recycling'', ''plastic'']\<rparr>,
      \<lparr>rc_title = ''Dispose e-waste safely'',
       rc_description = Some ''Tech Depot accepts laptops'', rc_image = None,
       rc_station_id = None, rc_tags = [''ewaste'']\<rparr>]"

text \<open>
  The loop \<open>for s in samples: create_document(...); inserted += 1\<close>. An exception
  leaves the loop with the rows inserted so far in the store.
\<close>

fun seed_loop :: "pylib \<Rightarrow> string \<Rightarrow> doc list \<Rightarrow> world \<Rightarrow> int \<Rightarrow> (exn + int) \<times> world" where
  "seed_loop env name [] w n = (Inr n, w)"
| "seed_loop env name (s # ss) w n =
     (case create_document env w name s of
        (Inl e, w') \<Rightarrow> (Inl e, w')
      | (Inr _, w') \<Rightarrow> seed_loop env name ss w' (n + 1))"

definition seed_if_empty ::
  "pylib \<Rightarrow> string \<Rightarrow> doc list \<Rightarrow> world \<Rightarrow> int \<Rightarrow> (exn + int) option \<times> world" where
  "seed_if_empty env name samples w n =
     (case count_documents w name [] of
        None \<Rightarrow> (None, w)
      | Some c \<Rightarrow>
          if c = 0 then (case seed_loop env name samples w n of (r, w') \<Rightarrow> (Some r, w'))
          else (Some (Inr n), w))"

definition seed_sample_data :: "pylib \<Rightarrow> world \<Rightarrow> SeedResult http \<times> world" where
  "seed_sample_data env w =
     (case seed_if_empty env ''station'' (map Station_dump sample_stations) w 0 of
        (None, w1) \<Rightarrow> (OutsideModel, w1)
      | (Some (Inl e), w1) \<Rightarrow> (InternalServerError e, w1)
      | (Some (Inr n1), w1) \<Rightarrow>
          (case seed_if_empty env ''recommendation''
                  (map Recommendation_dump sample_recommendations) w1 n1 of
             (None, w2) \<Rightarrow> (OutsideModel, w2)
           | (Some (Inl e), w2) \<Rightarrow> (InternalServerError e, w2)
           | (Some (Inr n2), w2) \<Rightarrow> (Response 200 \<lparr>inserted = n2\<rparr>, w2)))"

section \<open>Notions used to state the properties\<close>

text \<open>A well-formed dictionary has each key once.\<close>

definition is_dict :: "doc \<Rightarrow> bool" where
  "is_dict d = distinct (map fst d)"

text \<open>What \<open>serialize_doc\<close> does to a single value: an ObjectId becomes its string.\<close>

definition render :: "pylib \<Rightarrow> pyval \<Rightarrow> pyval" where
  "render env v = (if isinstance_ObjectId v then PStr (py_str env v) else v)"

text \<open>The number stored under a field, if the field holds a number.\<close>

definition field_num :: "doc \<Rightarrow> string \<Rightarrow> real option" where
  "field_num d k = (case map_of d k of None \<Rightarrow> None | Some v \<Rightarrow> num_of v)"


text \<open>
  Both coordinates of the document are numbers in the float range, and the squared
  planar distance to the query point is in the float range too, so that nothing in its
  computation overflows.
\<close>

definition within_float_range :: "real \<Rightarrow> real \<Rightarrow> doc \<Rightarrow> bool" where
  "within_float_range lat lng d =
     (case field_num d ''latitude'' of
        None \<Rightarrow> False
      | Some a \<Rightarrow>
          (case field_num d ''longitude'' of
             None \<Rightarrow> False
           | Some b \<Rightarrow>
               \<bar>a\<bar> < float_bound \<and> \<bar>b\<bar> < float_bound
               \<and> (a - lat)\<^sup>2 + (b - lng)\<^sup>2 < float_bound))"


subsection \<open>A small store for concrete runs\<close>





definition demo_env :: pylib where
  "demo_env = \<lparr>str_other = (\<lambda>_. []), float_of_str = (\<lambda>_. None), http_url_ok = (\<lambda>_. True)\<rparr>"

definition demo_stations :: "doc list" where
  "demo_stations =
     [[(''_id'', PObjectId ''0000000000000000000000a1''), (''name'', PStr ''City Dump Yard''),
       (''type'', PStr ''dump''), (''address'', PStr ''45 Industrial Rd''),
       (''latitude'', PFloat 3), (''longitude'', PFloat 4)],
      [(''_id'', PObjectId ''0000000000000000000000a2''), (''name'', PStr ''GreenCycle Center''),
       (''type'', PStr ''recycling''), (''address'', PStr ''123 Elm St''),
       (''latitude'', PFloat 1), (''longitude'', PFloat 1)],
      [(''_id'', PObjectId ''0000000000000000000000a3''), (''name'', PStr ''Tech E-Waste Depot''),
       (''type'', PStr ''ewaste''), (''address'', PStr ''9 Silicon Ave''),
       (''latitude'', PInt 0), (''longitude'', PFloat 2)]]"

definition demo_world :: world where
  "demo_world =
     \<lparr>colls = (\<lambda>name. if name = ''station'' then demo_stations else []),
      next_oid = 0, faults = []\<rparr>"







text \<open>The limit a request runs with: the one supplied, or the handler's default.\<close>

definition limit_of :: "int \<Rightarrow> int option \<Rightarrow> int" where
  "limit_of dflt limit = (case limit of None \<Rightarrow> dflt | Some n \<Rightarrow> n)"

text \<open>The condition under which \<open>list_stations\<close> adds the bounding box to its filter.\<close>

definition bbox_requested :: "real option \<Rightarrow> real option \<Rightarrow> real option \<Rightarrow> bool" where
  "bbox_requested lat lng radius_km =
     (lat \<noteq> None \<and> lng \<noteq> None \<and> radius_km \<noteq> None \<and> radius_km \<noteq> Some 0)"

text \<open>
  The coordinates of a document lie in the box of half-width \<open>radius_km / 111\<close> degrees
  around the query point.
\<close>

definition in_bbox :: "real \<Rightarrow> real \<Rightarrow> real \<Rightarrow> doc \<Rightarrow> bool" where
  "in_bbox lat lng radius_km d =
     (case field_num d ''latitude'' of
        None \<Rightarrow> False
      | Some a \<Rightarrow>
          (case field_num d ''longitude'' of
             None \<Rightarrow> False
           | Some b \<Rightarrow>
               lat - radius_km / 111 \<le> a \<and> a \<le> lat + radius_km / 111
               \<and> lng - radius_km / 111 \<le> b \<and> b \<le> lng + radius_km / 111))"

text \<open>
  The query occurs, ignoring ASCII case, as a substring of the document's name or of
  its address.
\<close>

definition field_contains :: "string \<Rightarrow> doc \<Rightarrow> string \<Rightarrow> bool" where
  "field_contains q d k =
     (case map_of d k of
        Some (PStr s) \<Rightarrow> sublist (map lower q) (map lower s)
      | _ \<Rightarrow> False)"

definition mentions :: "string \<Rightarrow> doc \<Rightarrow> bool" where
  "mentions q d = (field_contains q d ''name'' \<or> field_contains q d ''address'')"

text \<open>A query made of characters that mean themselves in a regular expression.\<close>

definition literal_query :: "string \<Rightarrow> bool" where
  "literal_query q = list_all (\<lambda>c. \<not> regex_special c \<and> c \<noteq> CHR ''.'') q"

text \<open>The fields of a station payload other than the coordinates are valid.\<close>

definition other_fields_valid :: "pylib \<Rightarrow> Station \<Rightarrow> bool" where
  "other_fields_valid env p =
     (st_type p \<in> set StationType
      \<and> (case st_rating p of None \<Rightarrow> True | Some r \<Rightarrow> 0 \<le> r \<and> r \<le> 5)
      \<and> (case st_review_count p of None \<Rightarrow> True | Some n \<Rightarrow> 0 \<le> n)
      \<and> (case st_website p of None \<Rightarrow> True | Some u \<Rightarrow> http_url_ok env u))"

definition coordinates_in_range :: "Station \<Rightarrow> bool" where
  "coordinates_in_range p =
     (- 90 \<le> st_latitude p \<and> st_latitude p \<le> 90
      \<and> - 180 \<le> st_longitude p \<and> st_longitude p \<le> 180)"

definition empty_world :: world where
  "empty_world = \<lparr>colls = (\<lambda>name. []), next_oid = 0, faults = []\<rparr>"

definition failing_world :: world where
  "failing_world = \<lparr>colls = (\<lambda>name. []), next_oid = 0, faults = [Some (PyException ''connection refused'')]\<rparr>"

definition demo_feedback :: RecommendationFeedback where
  "demo_feedback = \<lparr>fb_item_id = ''0000000000000000000000b1'', fb_action = ''up'',
                     fb_reason = None, fb_user_id = None\<rparr>"

text \<open>
  No document of the collection carries the ObjectId that the store hands out next, and
  none has an array under \<open>_id\<close>.
\<close>

definition id_unused :: "world \<Rightarrow> string \<Rightarrow> bool" where
  "id_unused w name =
     list_all
       (\<lambda>d. case map_of d ''_id'' of
               None \<Rightarrow> True
             | Some (PList _) \<Rightarrow> False
             | Some v \<Rightarrow> v \<noteq> PObjectId (hex24 (next_oid w)))
       (colls w name)"

section \<open>Properties of serialize_doc\<close>

lemma serialize_loop_map_of:
  "distinct (map fst items) \<Longrightarrow>
   map_of (serialize_loop env items d) k =
     (case map_of items k of
        None \<Rightarrow> map_of d k
      | Some v \<Rightarrow> if isinstance_ObjectId v then Some (PStr (py_str env v)) else map_of d k)"
proof (induction items arbitrary: d)
  case Nil
  then show ?case by simp
next
  case (Cons kv items)
  obtain k' v where kv: "kv = (k', v)" by (cases kv)
  from Cons.prems kv have notin: "map_of items k' = None" and dist: "distinct (map fst items)"
    by (auto simp: map_of_eq_None_iff)
  show ?case
    using notin by (simp add: kv Cons.IH [OF dist] update_conv' split: option.splits)
qed

lemma serialize_loop_self:
  "distinct (map fst d) \<Longrightarrow>
   map_of (serialize_loop env d d) k = map_option (render env) (map_of d k)"
  by (simp add: serialize_loop_map_of render_def split: option.splits)

lemma serialize_doc_other_field:
  assumes "is_dict d" "k \<noteq> ''_id''" "k \<noteq> ''id''"
  shows "map_of (serialize_doc env d) k = map_option (render env) (map_of d k)"
proof (cases "map_of d ''_id''")
  case None
  then show ?thesis using assms
    by (cases "d = []") (simp_all add: serialize_doc_def is_dict_def serialize_loop_self)
next
  case (Some v)
  have "distinct (map fst (AList.update ''id'' (PStr (py_str env v)) (AList.delete ''_id'' d)))"
    using assms(1) by (simp add: is_dict_def distinct_update distinct_delete)
  then show ?thesis using assms Some
    by (cases "d = []")
      (simp_all add: serialize_doc_def Let_def serialize_loop_self update_conv' delete_conv')
qed

lemma num_of_render: "num_of (render env v) = num_of v"
  by (cases v) (simp_all add: render_def num_of_def isinstance_ObjectId_def)

lemma field_num_serialize:
  "is_dict d \<Longrightarrow> k \<noteq> ''_id'' \<Longrightarrow> k \<noteq> ''id'' \<Longrightarrow>
   field_num (serialize_doc env d) k = field_num d k"
  by (simp add: field_num_def serialize_doc_other_field num_of_render split: option.splits)


section \<open>Properties of the store\<close>

lemma find_docs_empty: "find_docs [] ds = Some ds"
  by (induction ds) (simp_all add: match_filter_def all_opt_def)


section \<open>Slicing and limits\<close>

lemma length_py_slice_to: "0 \<le> k \<Longrightarrow> int (length (py_slice_to xs k)) \<le> k"
  by (simp add: py_slice_to_def)


section \<open>Nearby stations\<close>








lemma within_float_range_serialize:
  "is_dict d \<Longrightarrow> within_float_range lat lng (serialize_doc env d) = within_float_range lat lng d"
  by (simp add: within_float_range_def field_num_serialize cong: option.case_cong)






section \<open>Serialization\<close>






section \<open>Malformed documents in the nearby search\<close>











section \<open>Result limits\<close>

lemma length_cursor_limit: "0 < n \<Longrightarrow> int (length (cursor_limit (Some n) xs)) \<le> n"
  by (simp add: cursor_limit_def)

lemma length_get_documents:
  "get_documents w name f (Some n) = Some docs \<Longrightarrow> 0 < n \<Longrightarrow> int (length docs) \<le> n"
  by (auto simp: get_documents_def length_cursor_limit)

lemma query_int_bounds:
  "query_int dflt lo hi limit = Some cap \<Longrightarrow> lo \<le> dflt \<Longrightarrow> dflt \<le> hi \<Longrightarrow>
   cap = limit_of dflt limit \<and> lo \<le> cap \<and> cap \<le> hi"
  by (auto simp: query_int_def limit_of_def split: option.splits if_splits)

lemma list_stations_limit:
  assumes "list_stations env w t q limit lat lng r = Response s res"
  shows "1 \<le> limit_of 50 limit \<and> limit_of 50 limit \<le> 200 \<and> int (length res) \<le> limit_of 50 limit"
proof -
  from assms obtain cap docs where cap: "query_int 50 1 200 limit = Some cap"
    and docs: "get_documents w ''station'' (list_stations_filter t q lat lng r) (Some cap) = Some docs"
    and res: "res = map (serialize_doc env) docs"
    by (auto simp: list_stations_def split: option.splits)
  from query_int_bounds [OF cap] have b: "cap = limit_of 50 limit" "1 \<le> cap" "cap \<le> 200"
    by simp_all
  from length_get_documents [OF docs] b have "int (length docs) \<le> cap" by simp
  with b res show ?thesis by simp
qed

lemma list_recommendations_limit:
  assumes "list_recommendations env w limit = Response s res"
  shows "1 \<le> limit_of 20 limit \<and> limit_of 20 limit \<le> 100 \<and> int (length res) \<le> limit_of 20 limit"
proof -
  from assms obtain cap docs where cap: "query_int 20 1 100 limit = Some cap"
    and docs: "get_documents w ''recommendation'' [] (Some cap) = Some docs"
    and res: "res = map (serialize_doc env) docs"
    by (auto simp: list_recommendations_def split: option.splits)
  from query_int_bounds [OF cap] have b: "cap = limit_of 20 limit" "1 \<le> cap" "cap \<le> 100"
    by simp_all
  from length_get_documents [OF docs] b have "int (length docs) \<le> cap" by simp
  with b res show ?thesis by simp
qed

lemma nearby_stations_limit:
  assumes "nearby_stations env w lat lng limit = Response s res"
  shows "1 \<le> limit_of 10 limit \<and> limit_of 10 limit \<le> 100 \<and> int (length res) \<le> limit_of 10 limit"
proof -
  from assms obtain cap docs where cap: "query_int 10 1 100 limit = Some cap"
    and res: "res = map (serialize_doc env) (py_slice_to docs cap)"
    by (auto simp: nearby_stations_def split: option.splits)
  from query_int_bounds [OF cap] have b: "cap = limit_of 10 limit" "1 \<le> cap" "cap \<le> 100"
    by simp_all
  then have "int (length (py_slice_to docs cap)) \<le> cap"
    by (intro length_py_slice_to) simp
  with b res show ?thesis by simp
qed

lemma limit_rejected:
  assumes "limit = Some n" and "n < 1 \<or> hi < n"
  shows "query_int dflt 1 hi limit = None"
  using assms by (auto simp: query_int_def)

text \<open>
  C8. Every list-returning operation caps its result. An answer of list-stations has at
  most \<open>limit\<close> documents, where \<open>limit\<close> lies in \<open>[1, 200]\<close> and is 50 when the request
  names none; answers of nearby-stations and of list-recommendations have at most
  \<open>limit\<close> documents with \<open>limit\<close> in \<open>[1, 100]\<close>. A limit outside its range is refused
  with the framework's validation error.
\<close>

theorem list_operations_capped:
  "(\<forall>s res. list_stations env w t q limit lat lng r = Response s res \<longrightarrow>
      1 \<le> limit_of 50 limit \<and> limit_of 50 limit \<le> 200 \<and> int (length res) \<le> limit_of 50 limit)
   \<and> limit_of 50 None = 50
   \<and> (\<forall>s res. nearby_stations env w qlat qlng limit = Response s res \<longrightarrow>
      1 \<le> limit_of 10 limit \<and> limit_of 10 limit \<le> 100 \<and> int (length res) \<le> limit_of 10 limit)
   \<and> (\<forall>s res. list_recommendations env w limit = Response s res \<longrightarrow>
      1 \<le> limit_of 20 limit \<and> limit_of 20 limit \<le> 100 \<and> int (length res) \<le> limit_of 20 limit)
   \<and> (\<forall>n. limit = Some n \<and> (n < 1 \<or> 200 < n) \<longrightarrow>
        list_stations env w t q limit lat lng r = RequestValidationError [''limit''])
   \<and> (\<forall>n. limit = Some n \<and> (n < 1 \<or> 100 < n) \<longrightarrow>
        nearby_stations env w qlat qlng limit = RequestValidationError [''limit'']
        \<and> list_recommendations env w limit = RequestValidationError [''limit''])"
proof (intro conjI allI impI)
  show "limit_of 50 None = 50"
    by (simp add: limit_of_def)
  show "list_stations env w t q limit lat lng r = RequestValidationError [''limit'']"
    if "limit = Some n \<and> (n < 1 \<or> 200 < n)" for n
    using that limit_rejected [of limit n 200 50] by (simp add: list_stations_def)
  show "nearby_stations env w qlat qlng limit = RequestValidationError [''limit'']"
    if "limit = Some n \<and> (n < 1 \<or> 100 < n)" for n
    using that limit_rejected [of limit n 100 10] by (simp add: nearby_stations_def)
  show "list_recommendations env w limit = RequestValidationError [''limit'']"
    if "limit = Some n \<and> (n < 1 \<or> 100 < n)" for n
    using that limit_rejected [of limit n 100 20] by (simp add: list_recommendations_def)
  show "1 \<le> limit_of 50 limit" "limit_of 50 limit \<le> 200" "int (length res) \<le> limit_of 50 limit"
    if "list_stations env w t q limit lat lng r = Response s res" for s res
    using list_stations_limit [OF that] by simp_all
  show "1 \<le> limit_of 10 limit" "limit_of 10 limit \<le> 100" "int (length res) \<le> limit_of 10 limit"
    if "nearby_stations env w qlat qlng limit = Response s res" for s res
    using nearby_stations_limit [OF that] by simp_all
  show "1 \<le> limit_of 20 limit" "limit_of 20 limit \<le> 100" "int (length res) \<le> limit_of 20 limit"
    if "list_recommendations env w limit = Response s res" for s res
    using list_recommendations_limit [OF that] by simp_all
qed

theorem list_operations_capped_witness:
  "list_stations demo_env demo_world None None (Some 2) None None None
     = Response 200 (map (serialize_doc demo_env) (take 2 demo_stations))
   \<and> int (length (map (serialize_doc demo_env) (take 2 demo_stations))) \<le> limit_of 50 (Some 2)
   \<and> list_stations demo_env demo_world None None (Some 201) None None None
       = RequestValidationError [''limit'']
   \<and> nearby_stations demo_env demo_world 0 0 (Some 0) = RequestValidationError [''limit'']
   \<and> list_recommendations demo_env demo_world (Some 101) = RequestValidationError [''limit'']"
proof -
  have run: "list_stations demo_env demo_world None None (Some 2) None None None
     = Response 200 (map (serialize_doc demo_env) (take 2 demo_stations))"
    by (simp add: list_stations_def query_int_def list_stations_filter_def truthy_str_def
        truthy_float_def get_documents_def find_docs_empty cursor_limit_def demo_world_def)
  note t = list_operations_capped [of demo_env demo_world None None "Some 2" None None None 0 0]
  from t have "list_stations demo_env demo_world None None (Some 2) None None None
                 = Response 200 (map (serialize_doc demo_env) (take 2 demo_stations)) \<longrightarrow>
               int (length (map (serialize_doc demo_env) (take 2 demo_stations)))
                 \<le> limit_of 50 (Some 2)"
    by (elim conjE allE) (rule impI, erule (1) impE, elim conjE)
  with run have "int (length (map (serialize_doc demo_env) (take 2 demo_stations)))
      \<le> limit_of 50 (Some 2)"
    by (rule rev_mp)
  moreover
  have "list_stations demo_env demo_world None None (Some 201) None None None
       = RequestValidationError [''limit'']"
    using list_operations_capped [of demo_env demo_world None None "Some 201" None None None 0 0]
    by simp
  moreover
  have "nearby_stations demo_env demo_world 0 0 (Some 0) = RequestValidationError [''limit'']"
    using list_operations_capped [of demo_env demo_world None None "Some 0" None None None 0 0]
    by simp
  moreover
  have "list_recommendations demo_env demo_world (Some 101) = RequestValidationError [''limit'']"
    using list_operations_capped [of demo_env demo_world None None "Some 101" None None None 0 0]
    by simp
  ultimately show ?thesis
    using run by blast
qed

section \<open>The bounding-box filter\<close>

lemma list_stations_filter_no_bbox:
  "\<not> bbox_requested lat lng r \<Longrightarrow>
   list_stations_filter t q lat lng r = list_stations_filter t q None None None"
  by (auto simp: list_stations_filter_def bbox_requested_def truthy_float_def Let_def
      split: option.splits)

lemma list_stations_filter_bbox:
  "bbox_requested (Some lat) (Some lng) (Some r) \<Longrightarrow>
   map_of (list_stations_filter t q (Some lat) (Some lng) (Some r)) ''latitude''
     = Some (range_clause (lat - r / 111) (lat + r / 111))
   \<and> map_of (list_stations_filter t q (Some lat) (Some lng) (Some r)) ''longitude''
     = Some (range_clause (lng - r / 111) (lng + r / 111))"
  by (simp add: list_stations_filter_def bbox_requested_def truthy_float_def Let_def update_conv')

lemma list_stations_filter_plain:
  "map_of (list_stations_filter t q None None None) ''latitude'' = None
   \<and> map_of (list_stations_filter t q None None None) ''longitude'' = None"
  by (simp add: list_stations_filter_def Let_def update_conv')

text \<open>
  C9. The bounding box enters the filter of list-stations exactly when \<open>lat\<close> and \<open>lng\<close>
  are both given and \<open>radius_km\<close> is given and not zero. Otherwise the filter is the one
  of the same request without coordinates; in particular a request with
  \<open>radius_km = 0\<close> has the filter and the answer of the request without a radius.
\<close>

theorem bbox_only_for_nonzero_radius:
  "((map_of (list_stations_filter t q lat lng r) ''latitude'' \<noteq> None) = bbox_requested lat lng r)
   \<and> ((map_of (list_stations_filter t q lat lng r) ''longitude'' \<noteq> None) = bbox_requested lat lng r)
   \<and> bbox_requested lat lng r = (lat \<noteq> None \<and> lng \<noteq> None \<and> r \<noteq> None \<and> r \<noteq> Some 0)
   \<and> (\<not> bbox_requested lat lng r \<longrightarrow>
        list_stations_filter t q lat lng r = list_stations_filter t q None None None)
   \<and> list_stations_filter t q lat lng (Some 0) = list_stations_filter t q lat lng None
   \<and> list_stations env w t q limit lat lng (Some 0) = list_stations env w t q limit lat lng None"
proof -
  have a: "(map_of (list_stations_filter t q lat lng r) ''latitude'' \<noteq> None) = bbox_requested lat lng r
         \<and> (map_of (list_stations_filter t q lat lng r) ''longitude'' \<noteq> None) = bbox_requested lat lng r"
  proof (cases "bbox_requested lat lng r")
    case True
    then obtain la ln rr where "lat = Some la" "lng = Some ln" "r = Some rr"
      by (auto simp: bbox_requested_def)
    with True list_stations_filter_bbox [of la ln rr t q] show ?thesis by simp
  next
    case False
    with list_stations_filter_no_bbox [OF False, of t q] list_stations_filter_plain [of t q]
    show ?thesis by simp
  qed
  have z: "list_stations_filter t q lat lng (Some 0) = list_stations_filter t q lat lng None"
    by (simp add: list_stations_filter_no_bbox [of lat lng "Some 0"]
        list_stations_filter_no_bbox [of lat lng None] bbox_requested_def)
  have l: "list_stations env w t q limit lat lng (Some 0) = list_stations env w t q limit lat lng None"
    by (simp only: list_stations_def z)
  have d: "bbox_requested lat lng r = (lat \<noteq> None \<and> lng \<noteq> None \<and> r \<noteq> None \<and> r \<noteq> Some 0)"
    by (simp add: bbox_requested_def)
  from a z l d list_stations_filter_no_bbox [of lat lng r t q] show ?thesis
    by blast
qed

theorem bbox_only_for_nonzero_radius_witness:
  "list_stations demo_env demo_world None None None (Some 50) (Some 50) (Some 0)
     = Response 200 (map (serialize_doc demo_env) demo_stations)"
proof -
  have "take 50 demo_stations = demo_stations"
    by (simp add: demo_stations_def)
  then have "list_stations demo_env demo_world None None None (Some 50) (Some 50) None
     = Response 200 (map (serialize_doc demo_env) demo_stations)"
    by (simp add: list_stations_def query_int_def list_stations_filter_def truthy_str_def
        truthy_float_def get_documents_def find_docs_empty cursor_limit_def demo_world_def)
  with bbox_only_for_nonzero_radius [of None None "Some 50" "Some 50" "Some 0" demo_env demo_world None]
  show ?thesis by simp
qed

section \<open>Matching\<close>

lemma all_opt_True: "all_opt bs = Some True \<Longrightarrow> b \<in> set bs \<Longrightarrow> b = Some True"
proof (induction bs)
  case Nil
  then show ?case by simp
next
  case (Cons a bs)
  then show ?case
    by (cases a; cases "those bs") (auto simp: all_opt_def)
qed

lemma match_filter_field:
  assumes "match_filter f d = Some True" and "map_of f k = Some v" and "k \<noteq> ''$or''"
  shows "match_field d (k, v) = Some True"
proof -
  from assms(2) have "(k, v) \<in> set f" by (rule map_of_SomeD)
  then have "match_clause d (k, v) \<in> set (map (match_clause d) f)" by simp
  with assms(1) have "match_clause d (k, v) = Some True"
    unfolding match_filter_def by (rule all_opt_True)
  with assms(3) show ?thesis by (simp add: match_clause_def)
qed

lemma compare_num_True:
  "compare_num rel (map_of d k) b = Some True \<Longrightarrow>
   \<exists>a bv. field_num d k = Some a \<and> num_of b = Some bv \<and> rel a bv"
  by (auto simp: compare_num_def field_num_def split: option.splits pyval.splits)

lemma match_range:
  assumes "match_field d (k, range_clause lo hi) = Some True"
  shows "\<exists>a. field_num d k = Some a \<and> lo \<le> a \<and> a \<le> hi"
proof -
  let ?ops = "[(''$gte'', PFloat lo), (''$lte'', PFloat hi)]"
  from assms have m: "all_opt (map (match_op ?ops (map_of d k)) ?ops) = Some True"
    by (auto simp: match_field_def match_condition_def range_clause_def is_operator_def Let_def
        split: if_splits)
  have "match_op ?ops (map_of d k) (''$gte'', PFloat lo) = Some True"
    by (rule all_opt_True [OF m]) simp
  then have ge: "compare_num (\<lambda>a bv. bv \<le> a) (map_of d k) (PFloat lo) = Some True"
    by (simp add: match_op_def)
  have "match_op ?ops (map_of d k) (''$lte'', PFloat hi) = Some True"
    by (rule all_opt_True [OF m]) simp
  then have le: "compare_num (\<lambda>a bv. a \<le> bv) (map_of d k) (PFloat hi) = Some True"
    by (simp add: match_op_def)
  from compare_num_True [OF ge] compare_num_True [OF le] show ?thesis
    by (auto simp: num_of_def)
qed

lemma find_docs_filter:
  "find_docs f ds = Some r \<Longrightarrow>
   r = filter (\<lambda>d. match_filter f d = Some True) ds \<and> (\<forall>d \<in> set ds. match_filter f d \<noteq> None)"
  by (induction ds arbitrary: r) (auto split: option.splits)

lemma set_cursor_limit: "set (cursor_limit limit xs) \<subseteq> set xs"
  by (auto simp: cursor_limit_def split: option.splits dest: in_set_takeD)

lemma get_documents_matching:
  assumes "get_documents w name f limit = Some docs" and "d \<in> set docs"
  shows "d \<in> set (colls w name) \<and> match_filter f d = Some True"
proof -
  from assms(1) obtain r where r: "find_docs f (colls w name) = Some r"
    and docs: "docs = cursor_limit limit r"
    unfolding get_documents_def by (cases "find_docs f (colls w name)") simp_all
  from assms(2) have "d \<in> set (cursor_limit limit r)"
    by (simp only: docs)
  with set_cursor_limit [of limit r] have "d \<in> set r" ..
  with find_docs_filter [OF r] show ?thesis by simp
qed

lemma in_bbox_serialize:
  "is_dict d \<Longrightarrow> in_bbox lat lng r (serialize_doc env d) = in_bbox lat lng r d"
  by (simp add: in_bbox_def field_num_serialize cong: option.case_cong)

text \<open>
  C2, as the code has it. When \<open>lat\<close>, \<open>lng\<close> and a radius other than zero are supplied,
  every document in the answer of list-stations has its latitude in
  \<open>[lat - radius_km/111, lat + radius_km/111]\<close> and its longitude in
  \<open>[lng - radius_km/111, lng + radius_km/111]\<close>.
\<close>

theorem list_stations_bbox:
  assumes "list_stations env w t q limit (Some lat) (Some lng) (Some r) = Response s res"
    and "r \<noteq> 0"
    and "\<forall>d \<in> set (colls w ''station''). is_dict d"
  shows "\<forall>d \<in> set res. in_bbox lat lng r d"
proof
  fix d assume d: "d \<in> set res"
  let ?f = "list_stations_filter t q (Some lat) (Some lng) (Some r)"
  from assms(1) obtain cap docs where
    docs: "get_documents w ''station'' ?f (Some cap) = Some docs"
    and res: "res = map (serialize_doc env) docs"
    by (auto simp: list_stations_def split: option.splits)
  from d res obtain d0 where d0: "d0 \<in> set docs" "d = serialize_doc env d0" by auto
  from get_documents_matching [OF docs d0(1)]
  have stored: "d0 \<in> set (colls w ''station'')" and m: "match_filter ?f d0 = Some True"
    by simp_all
  from assms(2) have bb: "bbox_requested (Some lat) (Some lng) (Some r)"
    by (simp add: bbox_requested_def)
  from list_stations_filter_bbox [OF bb, of t q]
  have la: "map_of ?f ''latitude'' = Some (range_clause (lat - r / 111) (lat + r / 111))"
    and lo: "map_of ?f ''longitude'' = Some (range_clause (lng - r / 111) (lng + r / 111))"
    by simp_all
  from match_range [OF match_filter_field [OF m la]]
  obtain a where a: "field_num d0 ''latitude'' = Some a" "lat - r / 111 \<le> a" "a \<le> lat + r / 111"
    by auto
  from match_range [OF match_filter_field [OF m lo]]
  obtain b where b: "field_num d0 ''longitude'' = Some b" "lng - r / 111 \<le> b" "b \<le> lng + r / 111"
    by auto
  from a b have "in_bbox lat lng r d0" by (simp add: in_bbox_def)
  with stored assms(3) d0(2) show "in_bbox lat lng r d"
    by (simp add: in_bbox_serialize)
qed

theorem list_stations_bbox_witness:
  "list_stations demo_env demo_world None None None (Some 1) (Some 1) (Some 111)
     = Response 200 [serialize_doc demo_env (demo_stations ! 1), serialize_doc demo_env (demo_stations ! 2)]
   \<and> in_bbox 1 1 111 (serialize_doc demo_env (demo_stations ! 1))
   \<and> in_bbox 1 1 111 (serialize_doc demo_env (demo_stations ! 2))"
proof -
  have run: "list_stations demo_env demo_world None None None (Some 1) (Some 1) (Some 111)
     = Response 200 [serialize_doc demo_env (demo_stations ! 1), serialize_doc demo_env (demo_stations ! 2)]"
    by (simp add: list_stations_def query_int_def list_stations_filter_def truthy_str_def
        truthy_float_def get_documents_def cursor_limit_def demo_world_def demo_stations_def
        range_clause_def match_filter_def match_clause_def match_field_def match_condition_def
        match_op_def compare_num_def num_of_def is_operator_def all_opt_def Let_def)
  have dicts: "\<forall>d \<in> set (colls demo_world ''station''). is_dict d"
    by (simp add: demo_world_def demo_stations_def is_dict_def)
  have nz: "(111::real) \<noteq> 0" by simp
  from list_stations_bbox [OF run nz dicts] show ?thesis
    using run by simp
qed

theorem list_stations_bbox_zero_radius_counterexample:
  "list_stations demo_env demo_world None None None (Some 50) (Some 50) (Some 0)
     = Response 200 (map (serialize_doc demo_env) demo_stations)
   \<and> field_num (serialize_doc demo_env (demo_stations ! 0)) ''latitude'' = Some 3
   \<and> \<not> (50 - 0 / 111 \<le> (3::real) \<and> (3::real) \<le> 50 + 0 / 111)"
proof -
  have "take 50 demo_stations = demo_stations"
    by (simp add: demo_stations_def)
  then have "list_stations demo_env demo_world None None None (Some 50) (Some 50) (Some 0)
     = Response 200 (map (serialize_doc demo_env) demo_stations)"
    by (simp add: list_stations_def query_int_def list_stations_filter_def truthy_str_def
        truthy_float_def get_documents_def find_docs_empty cursor_limit_def demo_world_def)
  moreover have "is_dict (demo_stations ! 0)"
    by (simp add: demo_stations_def is_dict_def)
  then have "field_num (serialize_doc demo_env (demo_stations ! 0)) ''latitude'' = Some 3"
    by (simp add: field_num_serialize) (simp add: field_num_def num_of_def demo_stations_def)
  ultimately show ?thesis by simp
qed

section \<open>The search query\<close>

lemma regex_compile_literal: "literal_query q \<Longrightarrow> regex_compile q = Some (map Lit q)"
  by (induction q) (simp_all add: literal_query_def)

lemma match_here_literal:
  "match_here True (map Lit q) s = prefix (map lower q) (map lower s)"
proof (induction q arbitrary: s)
  case Nil
  then show ?case by simp
next
  case (Cons c q)
  then show ?case by (cases s) (simp_all add: atom_ok_def)
qed

lemma regex_search_literal:
  "regex_search True (map Lit q) s = sublist (map lower q) (map lower s)"
proof (induction s)
  case Nil
  then show ?case by (simp add: match_here_literal)
next
  case (Cons c s)
  then show ?case by (simp add: match_here_literal sublist_Cons_right)
qed

lemma regex_field_literal:
  "literal_query q \<Longrightarrow>
   regex_field ''i'' q x =
     (case x of
        Some (PStr s) \<Rightarrow> Some (sublist (map lower q) (map lower s))
      | Some (PList _) \<Rightarrow> None
      | _ \<Rightarrow> Some False)"
  by (simp add: regex_field_def regex_compile_literal regex_search_literal
      split: option.splits pyval.splits)

lemma match_flat_regex_clause:
  assumes "literal_query q" and "k = ''name'' \<or> k = ''address''"
  shows "match_flat d (regex_clause k q) =
           (case map_of d k of Some (PList _) \<Rightarrow> None | _ \<Rightarrow> Some (field_contains q d k))"
proof -
  let ?ops = "[(''$regex'', PStr q), (''$options'', PStr ''i'')]"
  have op1: "match_op ?ops x (''$regex'', PStr q) = regex_field ''i'' q x" for x
    by (simp add: match_op_def dict_get_def)
  have op2: "match_op ?ops x (''$options'', PStr ''i'') = Some True" for x
    by (simp add: match_op_def)
  have cond: "match_condition x (PDict ?ops) = all_opt [regex_field ''i'' q x, Some True]" for x
    by (simp add: match_condition_def is_operator_def op1 op2)
  have "match_flat d (regex_clause k q) = all_opt [all_opt [regex_field ''i'' q (map_of d k), Some True]]"
    using assms(2) by (auto simp: match_flat_def regex_clause_def match_field_def is_operator_def cond)
  then show ?thesis
    by (simp add: regex_field_literal [OF assms(1)] all_opt_def field_contains_def
        split: option.splits pyval.splits)
qed

lemma or_clause_mentions:
  assumes "literal_query q"
    and "match_clause d (''$or'', PList [regex_clause ''name'' q, regex_clause ''address'' q]) = Some b"
  shows "b = mentions q d"
proof -
  from assms(2) have "any_opt [match_flat d (regex_clause ''name'' q),
                               match_flat d (regex_clause ''address'' q)] = Some b"
    by (simp add: match_clause_def)
  then show ?thesis
    by (auto simp: match_flat_regex_clause [OF assms(1)] any_opt_def mentions_def
        split: option.splits pyval.splits)
qed

lemma list_stations_filter_query:
  "q \<noteq> [] \<Longrightarrow>
   map_of (list_stations_filter t (Some q) lat lng r) ''$or''
     = Some (PList [regex_clause ''name'' q, regex_clause ''address'' q])"
  by (simp add: list_stations_filter_def truthy_str_def Let_def update_conv')

lemma list_stations_filter_query_only:
  "q \<noteq> [] \<Longrightarrow>
   list_stations_filter None (Some q) None None None
     = [(''$or'', PList [regex_clause ''name'' q, regex_clause ''address'' q])]"
  by (simp add: list_stations_filter_def truthy_str_def Let_def)

lemma match_filter_or_clause:
  assumes "match_filter f d = Some True" and "map_of f ''$or'' = Some v"
  shows "match_clause d (''$or'', v) = Some True"
proof -
  from assms(2) have "(''$or'', v) \<in> set f" by (rule map_of_SomeD)
  then have "match_clause d (''$or'', v) \<in> set (map (match_clause d) f)" by simp
  with assms(1) show ?thesis
    unfolding match_filter_def by (rule all_opt_True)
qed

text \<open>
  C5, as the code has it. The query is handed to the store as a case-insensitive regular
  expression on the name and on the address. When the query is not empty and has no
  character with a meaning in regular expressions, every document in the answer of
  list-stations has the query, ignoring case, as a substring of its name or of its
  address; and a request with the query alone is answered with the first \<open>limit\<close>
  stored documents that have it so.
\<close>

theorem list_stations_query_literal:
  assumes "q \<noteq> []" and "literal_query q"
  shows "(\<forall>s res. list_stations env w t (Some q) limit lat lng r = Response s res \<longrightarrow>
            (\<exists>docs. res = map (serialize_doc env) docs \<and> (\<forall>d \<in> set docs. mentions q d)))
       \<and> (\<forall>s res. list_stations env w None (Some q) limit None None None = Response s res \<longrightarrow>
            res = map (serialize_doc env)
                    (take (nat (limit_of 50 limit)) (filter (mentions q) (colls w ''station''))))"
proof (intro conjI allI impI)
  fix s res
  assume run: "list_stations env w t (Some q) limit lat lng r = Response s res"
  let ?f = "list_stations_filter t (Some q) lat lng r"
  from run obtain cap docs where
    docs: "get_documents w ''station'' ?f (Some cap) = Some docs"
    and res: "res = map (serialize_doc env) docs"
    by (auto simp: list_stations_def split: option.splits)
  have "mentions q d" if "d \<in> set docs" for d
  proof -
    from get_documents_matching [OF docs that] have m: "match_filter ?f d = Some True"
      by simp
    from match_filter_or_clause [OF m list_stations_filter_query [OF assms(1)]]
    have "True = mentions q d"
      by (rule or_clause_mentions [OF assms(2)])
    then show ?thesis by simp
  qed
  with res show "\<exists>docs. res = map (serialize_doc env) docs \<and> (\<forall>d \<in> set docs. mentions q d)"
    by blast
next
  fix s res
  assume run: "list_stations env w None (Some q) limit None None None = Response s res"
  let ?clause = "(''$or'', PList [regex_clause ''name'' q, regex_clause ''address'' q])"
  from run obtain cap found where cap: "query_int 50 1 200 limit = Some cap"
    and found: "find_docs [?clause] (colls w ''station'') = Some found"
    and res: "res = map (serialize_doc env) (cursor_limit (Some cap) found)"
    by (auto simp: list_stations_def get_documents_def list_stations_filter_query_only [OF assms(1)]
        split: option.splits)
  from query_int_bounds [OF cap] have b: "cap = limit_of 50 limit" "1 \<le> cap"
    by simp_all
  from find_docs_filter [OF found]
  have flt: "found = filter (\<lambda>d. match_filter [?clause] d = Some True) (colls w ''station'')"
    and total: "\<forall>d \<in> set (colls w ''station''). match_filter [?clause] d \<noteq> None"
    by simp_all
  have same: "(match_filter [?clause] d = Some True) = mentions q d"
    if "d \<in> set (colls w ''station'')" for d
  proof -
    from total that obtain bb where bb: "match_filter [?clause] d = Some bb" by auto
    then have "match_clause d ?clause = Some bb"
      by (cases "match_clause d ?clause") (simp_all add: match_filter_def all_opt_def)
    from or_clause_mentions [OF assms(2) this] bb show ?thesis by simp
  qed
  have "found = filter (mentions q) (colls w ''station'')"
    unfolding flt by (rule filter_cong) (simp_all add: same)
  with res b show "res = map (serialize_doc env)
      (take (nat (limit_of 50 limit)) (filter (mentions q) (colls w ''station'')))"
    by (simp add: cursor_limit_def)
qed

theorem list_stations_query_literal_witness:
  "list_stations demo_env demo_world None (Some ''elm'') None None None None
     = Response 200 (map (serialize_doc demo_env)
         (take (nat (limit_of 50 None)) (filter (mentions ''elm'') demo_stations)))
   \<and> filter (mentions ''elm'') demo_stations = [demo_stations ! 1]"
proof -
  have q: "''elm'' \<noteq> []" by simp
  have lit: "literal_query ''elm''"
    by (simp add: literal_query_def regex_special_def)
  have st: "colls demo_world ''station'' = demo_stations"
    by (simp add: demo_world_def)
  have "\<exists>s res. list_stations demo_env demo_world None (Some ''elm'') None None None None
           = Response s res"
    by (simp add: list_stations_def query_int_def list_stations_filter_def truthy_str_def
        truthy_float_def get_documents_def demo_world_def demo_stations_def regex_clause_def
        match_filter_def match_clause_def match_flat_def match_field_def match_condition_def
        match_op_def dict_get_def regex_field_def regex_special_def atom_ok_def lower_def
        is_operator_def all_opt_def any_opt_def)
  then obtain s res where run:
    "list_stations demo_env demo_world None (Some ''elm'') None None None None = Response s res"
    by blast
  then have s: "s = 200"
    by (auto simp: list_stations_def split: option.splits)
  from list_stations_query_literal [OF q lit, of demo_env demo_world None None None None None] run
  have "res = map (serialize_doc demo_env)
         (take (nat (limit_of 50 None)) (filter (mentions ''elm'') (colls demo_world ''station'')))"
    by blast
  with run s st have "list_stations demo_env demo_world None (Some ''elm'') None None None None
     = Response 200 (map (serialize_doc demo_env)
         (take (nat (limit_of 50 None)) (filter (mentions ''elm'') demo_stations)))"
    by simp
  moreover have "filter (mentions ''elm'') demo_stations = [demo_stations ! 1]"
    by (simp add: demo_stations_def mentions_def field_contains_def lower_def sublist_code)
  ultimately show ?thesis by simp
qed

theorem list_stations_query_regex_counterexample:
  "list_stations demo_env demo_world None (Some ''c.t'') None None None None
     = Response 200 [serialize_doc demo_env (demo_stations ! 0)]
   \<and> map_of (demo_stations ! 0) ''name'' = Some (PStr ''City Dump Yard'')
   \<and> map_of (demo_stations ! 0) ''address'' = Some (PStr ''45 Industrial Rd'')
   \<and> \<not> sublist (map lower ''c.t'') (map lower ''City Dump Yard'')
   \<and> \<not> sublist (map lower ''c.t'') (map lower ''45 Industrial Rd'')
   \<and> \<not> mentions ''c.t'' (demo_stations ! 0)"
proof -
  have "list_stations demo_env demo_world None (Some ''c.t'') None None None None
     = Response 200 [serialize_doc demo_env (demo_stations ! 0)]"
    by (simp add: list_stations_def query_int_def list_stations_filter_def truthy_str_def
        truthy_float_def get_documents_def cursor_limit_def demo_world_def demo_stations_def
        regex_clause_def match_filter_def match_clause_def match_flat_def match_field_def
        match_condition_def match_op_def dict_get_def regex_field_def regex_special_def
        atom_ok_def lower_def is_operator_def all_opt_def any_opt_def)
  moreover have "\<not> sublist (map lower ''c.t'') (map lower ''City Dump Yard'')"
    by (simp add: lower_def sublist_code)
  moreover have "\<not> sublist (map lower ''c.t'') (map lower ''45 Industrial Rd'')"
    by (simp add: lower_def sublist_code)
  ultimately show ?thesis
    by (simp add: mentions_def field_contains_def) (simp add: demo_stations_def)
qed

section \<open>Schema validation\<close>

lemma Station_errors_empty:
  "(Station_errors env p = []) = (coordinates_in_range p \<and> other_fields_valid env p)"
  by (auto simp: Station_errors_def coordinates_in_range_def other_fields_valid_def
      split: option.splits)

lemma latitude_error:
  "(''latitude'' \<in> set (Station_errors env p)) = (st_latitude p < - 90 \<or> 90 < st_latitude p)"
  by (auto simp: Station_errors_def split: option.splits)

lemma longitude_error:
  "(''longitude'' \<in> set (Station_errors env p)) = (st_longitude p < - 180 \<or> 180 < st_longitude p)"
  by (auto simp: Station_errors_def split: option.splits)

text \<open>
  C4. A station payload whose latitude is outside \<open>[-90, 90]\<close> or whose longitude is
  outside \<open>[-180, 180]\<close> is rejected: validation fails, naming the offending field, and
  the route answers 422 without touching the store. A payload whose coordinates are
  within the bounds and whose other fields are valid passes validation unchanged and
  reaches the handler.
\<close>

theorem station_coordinates_validated:
  "(\<not> coordinates_in_range p \<longrightarrow>
      (\<exists>errs. validate_Station env p = Inl errs \<and> errs \<noteq> []
              \<and> post_station env w p = (RequestValidationError errs, w))
      \<and> status_code (fst (post_station env w p)) = Some 422)
   \<and> ((''latitude'' \<in> set (Station_errors env p)) = (st_latitude p < - 90 \<or> 90 < st_latitude p))
   \<and> ((''longitude'' \<in> set (Station_errors env p)) = (st_longitude p < - 180 \<or> 180 < st_longitude p))
   \<and> (coordinates_in_range p \<and> other_fields_valid env p \<longrightarrow>
        validate_Station env p = Inr p \<and> post_station env w p = create_station env w p)"
proof (intro conjI impI)
  assume bad: "\<not> coordinates_in_range p"
  then have ne: "Station_errors env p \<noteq> []"
    by (simp add: Station_errors_empty)
  then show "\<exists>errs. validate_Station env p = Inl errs \<and> errs \<noteq> []
              \<and> post_station env w p = (RequestValidationError errs, w)"
    by (simp add: validate_Station_def post_station_def)
  from ne show "status_code (fst (post_station env w p)) = Some 422"
    by (simp add: validate_Station_def post_station_def status_code_def)
next
  assume ok: "coordinates_in_range p \<and> other_fields_valid env p"
  then have e: "Station_errors env p = []"
    by (simp add: Station_errors_empty)
  then show "validate_Station env p = Inr p"
    by (simp add: validate_Station_def)
  from e show "post_station env w p = create_station env w p"
    by (simp add: validate_Station_def post_station_def)
qed (rule latitude_error longitude_error)+

theorem station_coordinates_validated_witness:
  "status_code (fst (post_station demo_env empty_world ((hd sample_stations)\<lparr>st_latitude := 91\<rparr>)))
     = Some 422
   \<and> ''latitude'' \<in> set (Station_errors demo_env ((hd sample_stations)\<lparr>st_latitude := 91\<rparr>))
   \<and> validate_Station demo_env (hd sample_stations) = Inr (hd sample_stations)"
proof -
  have bad: "\<not> coordinates_in_range ((hd sample_stations)\<lparr>st_latitude := 91\<rparr>)"
    by (simp add: coordinates_in_range_def)
  have lat: "st_latitude ((hd sample_stations)\<lparr>st_latitude := 91\<rparr>) = 91"
    by simp
  have ok: "coordinates_in_range (hd sample_stations) \<and> other_fields_valid demo_env (hd sample_stations)"
    by (simp add: coordinates_in_range_def other_fields_valid_def sample_stations_def
        StationType_def demo_env_def)
  from station_coordinates_validated
    [of "(hd sample_stations)\<lparr>st_latitude := 91\<rparr>" demo_env empty_world] bad lat
  have "status_code (fst (post_station demo_env empty_world ((hd sample_stations)\<lparr>st_latitude := 91\<rparr>)))
          = Some 422
        \<and> ''latitude'' \<in> set (Station_errors demo_env ((hd sample_stations)\<lparr>st_latitude := 91\<rparr>))"
    by simp
  moreover from station_coordinates_validated [of "hd sample_stations" demo_env empty_world] ok
  have "validate_Station demo_env (hd sample_stations) = Inr (hd sample_stations)"
    by blast
  ultimately show ?thesis by blast
qed

section \<open>Seeding\<close>

lemma count_documents_all: "count_documents w name [] = Some (length (colls w name))"
  by (simp add: count_documents_def find_docs_empty)

lemma create_document_grows:
  assumes "create_document env w name d = (Inr i, w')"
  shows "colls w' name \<noteq> [] \<and> (\<forall>c. colls w c \<noteq> [] \<longrightarrow> colls w' c \<noteq> [])"
proof -
  from assms obtain oid where "insert_one w name d = (Inr oid, w')"
    by (auto simp: create_document_def split: prod.splits sum.splits)
  then have "colls w' = (colls w)(name := colls w name @ [AList.update ''_id'' oid d])"
    by (auto simp: insert_one_def Let_def split: list.splits option.splits)
  then show ?thesis by simp
qed

lemma seed_loop_grows:
  "seed_loop env name ss w n = (Inr m, w') \<Longrightarrow>
   (ss \<noteq> [] \<longrightarrow> colls w' name \<noteq> []) \<and> (\<forall>c. colls w c \<noteq> [] \<longrightarrow> colls w' c \<noteq> [])"
proof (induction ss arbitrary: w n)
  case Nil
  then show ?case by simp
next
  case (Cons s ss)
  from Cons.prems obtain i w1 where first: "create_document env w name s = (Inr i, w1)"
    and rest: "seed_loop env name ss w1 (n + 1) = (Inr m, w')"
    by (auto split: prod.splits sum.splits)
  from create_document_grows [OF first] Cons.IH [OF rest] show ?case by simp
qed

lemma seed_if_empty_grows:
  assumes "seed_if_empty env name ss w n = (Some (Inr m), w')" and "ss \<noteq> []"
  shows "colls w' name \<noteq> [] \<and> (\<forall>c. colls w c \<noteq> [] \<longrightarrow> colls w' c \<noteq> [])"
proof (cases "colls w name = []")
  case True
  with assms(1) have "seed_loop env name ss w n = (Inr m, w')"
    by (auto simp: seed_if_empty_def count_documents_all split: prod.splits)
  from seed_loop_grows [OF this] assms(2) show ?thesis by simp
next
  case False
  with assms(1) have "w' = w"
    by (simp add: seed_if_empty_def count_documents_all)
  with False show ?thesis by simp
qed

lemma seed_sample_data_seeded:
  assumes "colls w ''station'' \<noteq> []" and "colls w ''recommendation'' \<noteq> []"
  shows "seed_sample_data env w = (Response 200 \<lparr>inserted = 0\<rparr>, w)"
  using assms by (simp add: seed_sample_data_def seed_if_empty_def count_documents_all)

lemma seed_sample_data_fills:
  assumes "seed_sample_data env w = (Response s r, w2)"
  shows "colls w2 ''station'' \<noteq> [] \<and> colls w2 ''recommendation'' \<noteq> []"
proof -
  from assms obtain n1 w1 n2 where
    one: "seed_if_empty env ''station'' (map Station_dump sample_stations) w 0 = (Some (Inr n1), w1)"
    and two: "seed_if_empty env ''recommendation''
                (map Recommendation_dump sample_recommendations) w1 n1 = (Some (Inr n2), w2)"
    by (auto simp: seed_sample_data_def split: prod.splits option.splits sum.splits)
  have "map Station_dump sample_stations \<noteq> []"
    by (simp add: sample_stations_def)
  from seed_if_empty_grows [OF one this] have a: "colls w1 ''station'' \<noteq> []" by simp
  have "map Recommendation_dump sample_recommendations \<noteq> []"
    by (simp add: sample_recommendations_def)
  from seed_if_empty_grows [OF two this] a show ?thesis by simp
qed

text \<open>
  C3. Seeding is idempotent. After a call of the seed operation that returned its result,
  a second call inserts nothing: it returns \<open>inserted = 0\<close> and leaves the store as it
  is. More generally a call in a state where both collections hold a document inserts
  nothing, since the sample rows go only into an empty collection.
\<close>

theorem seed_idempotent:
  "(\<forall>s r w1. seed_sample_data env w = (Response s r, w1) \<longrightarrow>
      seed_sample_data env w1 = (Response 200 \<lparr>inserted = 0\<rparr>, w1))
   \<and> (colls w ''station'' \<noteq> [] \<and> colls w ''recommendation'' \<noteq> [] \<longrightarrow>
        seed_sample_data env w = (Response 200 \<lparr>inserted = 0\<rparr>, w))"
proof (intro conjI allI impI)
  fix s r w1
  assume "seed_sample_data env w = (Response s r, w1)"
  from seed_sample_data_fills [OF this] show
    "seed_sample_data env w1 = (Response 200 \<lparr>inserted = 0\<rparr>, w1)"
    by (simp add: seed_sample_data_seeded)
next
  assume "colls w ''station'' \<noteq> [] \<and> colls w ''recommendation'' \<noteq> []"
  then show "seed_sample_data env w = (Response 200 \<lparr>inserted = 0\<rparr>, w)"
    by (simp add: seed_sample_data_seeded)
qed

theorem seed_idempotent_witness:
  "fst (seed_sample_data demo_env empty_world) = Response 200 \<lparr>inserted = 5\<rparr>
   \<and> seed_sample_data demo_env (snd (seed_sample_data demo_env empty_world))
       = (Response 200 \<lparr>inserted = 0\<rparr>, snd (seed_sample_data demo_env empty_world))"
proof -
  have first: "fst (seed_sample_data demo_env empty_world) = Response 200 \<lparr>inserted = 5\<rparr>"
    by (simp add: seed_sample_data_def seed_if_empty_def count_documents_all empty_world_def
        sample_stations_def sample_recommendations_def create_document_def insert_one_def Let_def)
  then have "seed_sample_data demo_env empty_world
      = (Response 200 \<lparr>inserted = 5\<rparr>, snd (seed_sample_data demo_env empty_world))"
    by (simp add: prod_eq_iff)
  with seed_idempotent [of demo_env empty_world] first show ?thesis
    by blast
qed

section \<open>Creating documents\<close>

lemma hexdigit_alphabet: "hexdigit k \<in> set hex_alphabet"
proof -
  have "k mod 16 < length hex_alphabet" by (simp add: hex_alphabet_def)
  then show ?thesis
    unfolding hexdigit_def by (rule nth_mem)
qed

lemma length_hex24: "length (hex24 n) = 24"
  by (simp add: hex24_def)

lemma hex24_alphabet: "c \<in> set (hex24 n) \<Longrightarrow> c \<in> set hex_alphabet"
proof -
  assume "c \<in> set (hex24 n)"
  then obtain i where "c = hexdigit (n div 16 ^ i)"
    unfolding hex24_def by auto
  then show ?thesis by (simp only: hexdigit_alphabet)
qed

lemma alphabet_all: "list_all (\<lambda>c. is_hex c \<and> lower c = c) hex_alphabet"
  by (simp add: hex_alphabet_def is_hex_def lower_def)

lemma alphabet_is_hex: "c \<in> set hex_alphabet \<Longrightarrow> is_hex c"
  using alphabet_all by (simp add: list_all_iff)

lemma alphabet_lower: "c \<in> set hex_alphabet \<Longrightarrow> lower c = c"
  using alphabet_all by (simp add: list_all_iff)

lemma py_ObjectId_hex24: "py_ObjectId (hex24 n) = Inr (PObjectId (hex24 n))"
proof -
  have "list_all is_hex (hex24 n)"
    unfolding list_all_iff using hex24_alphabet alphabet_is_hex by blast
  moreover have "map lower (hex24 n) = hex24 n"
    by (rule map_idI) (rule alphabet_lower, rule hex24_alphabet)
  ultimately show ?thesis
    by (simp add: py_ObjectId_def length_hex24)
qed

lemma update_absent: "map_of d k = None \<Longrightarrow> AList.update k v d = d @ [(k, v)]"
  by (induction d) (auto split: if_splits)

lemma match_filter_id:
  "match_filter [(''_id'', PObjectId h)] d =
     (case map_of d ''_id'' of
        Some (PList xs) \<Rightarrow> None
      | x \<Rightarrow> Some (x = Some (PObjectId h)))"
  by (simp add: match_filter_def match_clause_def match_field_def match_condition_def
      is_operator_def all_opt_def split: option.splits pyval.splits)

lemma find_docs_fresh:
  assumes "list_all (\<lambda>d. case map_of d ''_id'' of None \<Rightarrow> True | Some (PList _) \<Rightarrow> False
                          | Some v \<Rightarrow> v \<noteq> PObjectId h) old"
    and "map_of stored ''_id'' = Some (PObjectId h)"
  shows "find_docs [(''_id'', PObjectId h)] (old @ [stored]) = Some [stored]"
  using assms
proof (induction old)
  case Nil
  then show ?case by (simp add: match_filter_id)
next
  case (Cons d old)
  from Cons.prems(1) have "match_filter [(''_id'', PObjectId h)] d = Some False"
    by (auto simp: match_filter_id split: option.splits pyval.splits)
  with Cons show ?case by simp
qed

lemma create_document_raises:
  "create_document env w name d = (Inl e, w') \<Longrightarrow>
   insert_and_fetch env w name d = (HTTPException 400 (exn_str e), w')"
  by (simp add: insert_and_fetch_def)

lemma create_document_stores:
  assumes "create_document env w name d = (Inr i, w')" and "map_of d ''_id'' = None"
  shows "i = hex24 (next_oid w) \<and> colls w' name = colls w name @ [d @ [(''_id'', PObjectId i)]]"
proof -
  from assms(1) obtain oid where ins: "insert_one w name d = (Inr oid, w')" and i: "i = py_str env oid"
    by (auto simp: create_document_def split: prod.splits sum.splits)
  from ins assms(2) have "oid = PObjectId (hex24 (next_oid w))"
    and "colls w' = (colls w)(name := colls w name @ [AList.update ''_id'' oid d])"
    by (auto simp: insert_one_def Let_def split: list.splits option.splits)
  with i assms(2) show ?thesis
    by (simp add: py_str_def update_absent)
qed

lemma insert_and_fetch_stored:
  assumes "create_document env w name d = (Inr i, w')" and "map_of d ''_id'' = None"
    and "id_unused w name"
  shows "insert_and_fetch env w name d
           = (Response 201 (Some (serialize_doc env (d @ [(''_id'', PObjectId i)]))), w')
       \<and> colls w' name = colls w name @ [d @ [(''_id'', PObjectId i)]]"
proof -
  from create_document_stores [OF assms(1,2)]
  have i: "i = hex24 (next_oid w)"
    and c: "colls w' name = colls w name @ [d @ [(''_id'', PObjectId i)]]"
    by simp_all
  have oid: "py_ObjectId i = Inr (PObjectId i)"
    unfolding i by (rule py_ObjectId_hex24)
  have stored: "map_of (d @ [(''_id'', PObjectId i)]) ''_id'' = Some (PObjectId i)"
    using assms(2) by (simp add: map_add_def)
  from assms(3) have "find_docs [(''_id'', PObjectId i)] (colls w name @ [d @ [(''_id'', PObjectId i)]])
      = Some [d @ [(''_id'', PObjectId i)]]"
    unfolding id_unused_def i [symmetric] using stored by (rule find_docs_fresh)
  then have "find_one w' name [(''_id'', PObjectId i)] = Some (Some (d @ [(''_id'', PObjectId i)]))"
    by (simp add: find_one_def c)
  with assms(1) oid c show ?thesis
    by (simp add: insert_and_fetch_def)
qed

lemma Station_dump_no_id: "map_of (Station_dump p) ''_id'' = None"
  by (simp add: Station_dump_def)

lemma Feedback_dump_no_id: "map_of (Feedback_dump p) ''_id'' = None"
  by (simp add: Feedback_dump_def)

text \<open>
  C7. When the insert of a create-station or submit-feedback request raises an exception,
  the handler answers with status 400 and the exception's string as detail. When the
  insert succeeds (in a store that does not already hold the new id) the handler answers
  201 with the stored document, serialized: the payload's fields and the new \<open>_id\<close>.
\<close>

theorem insert_failure_400_success_201:
  "(\<forall>e w'. create_document env w ''station'' (Station_dump p) = (Inl e, w') \<longrightarrow>
      create_station env w p = (HTTPException 400 (exn_str e), w'))
   \<and> (\<forall>e w'. create_document env w ''recommendationfeedback'' (Feedback_dump fb) = (Inl e, w') \<longrightarrow>
      submit_feedback env w fb = (HTTPException 400 (exn_str e), w'))
   \<and> (\<forall>i w'. create_document env w ''station'' (Station_dump p) = (Inr i, w')
              \<and> id_unused w ''station'' \<longrightarrow>
      create_station env w p
        = (Response 201 (Some (serialize_doc env (Station_dump p @ [(''_id'', PObjectId i)]))), w')
      \<and> colls w' ''station'' = colls w ''station'' @ [Station_dump p @ [(''_id'', PObjectId i)]])
   \<and> (\<forall>i w'. create_document env w ''recommendationfeedback'' (Feedback_dump fb) = (Inr i, w')
              \<and> id_unused w ''recommendationfeedback'' \<longrightarrow>
      submit_feedback env w fb
        = (Response 201 (Some (serialize_doc env (Feedback_dump fb @ [(''_id'', PObjectId i)]))), w')
      \<and> colls w' ''recommendationfeedback''
          = colls w ''recommendationfeedback'' @ [Feedback_dump fb @ [(''_id'', PObjectId i)]])"
proof (intro conjI allI impI)
  fix e w'
  assume "create_document env w ''station'' (Station_dump p) = (Inl e, w')"
  then show "create_station env w p = (HTTPException 400 (exn_str e), w')"
    unfolding create_station_def by (rule create_document_raises)
next
  fix e w'
  assume "create_document env w ''recommendationfeedback'' (Feedback_dump fb) = (Inl e, w')"
  then show "submit_feedback env w fb = (HTTPException 400 (exn_str e), w')"
    unfolding submit_feedback_def by (rule create_document_raises)
next
  fix i w'
  assume a: "create_document env w ''station'' (Station_dump p) = (Inr i, w')
             \<and> id_unused w ''station''"
  from a insert_and_fetch_stored [OF _ Station_dump_no_id, of env w "''station''" p i w']
  show "create_station env w p
        = (Response 201 (Some (serialize_doc env (Station_dump p @ [(''_id'', PObjectId i)]))), w')"
    and "colls w' ''station'' = colls w ''station'' @ [Station_dump p @ [(''_id'', PObjectId i)]]"
    by (simp_all add: create_station_def)
next
  fix i w'
  assume a: "create_document env w ''recommendationfeedback'' (Feedback_dump fb) = (Inr i, w')
             \<and> id_unused w ''recommendationfeedback''"
  from a insert_and_fetch_stored [OF _ Feedback_dump_no_id, of env w "''recommendationfeedback''" fb i w']
  show "submit_feedback env w fb
        = (Response 201 (Some (serialize_doc env (Feedback_dump fb @ [(''_id'', PObjectId i)]))), w')"
    and "colls w' ''recommendationfeedback''
          = colls w ''recommendationfeedback'' @ [Feedback_dump fb @ [(''_id'', PObjectId i)]]"
    by (simp_all add: submit_feedback_def)
qed

theorem insert_failure_400_success_201_witness:
  "fst (create_station demo_env failing_world (hd sample_stations))
     = HTTPException 400 ''connection refused''
   \<and> fst (submit_feedback demo_env failing_world demo_feedback)
     = HTTPException 400 ''connection refused''
   \<and> fst (create_station demo_env empty_world (hd sample_stations))
     = Response 201 (Some (serialize_doc demo_env
         (Station_dump (hd sample_stations) @ [(''_id'', PObjectId (hex24 0))])))"
proof -
  note t = insert_failure_400_success_201
  have f1: "fst (create_document demo_env failing_world ''station'' (Station_dump (hd sample_stations)))
              = Inl (PyException ''connection refused'')"
    by (simp add: create_document_def insert_one_def failing_world_def)
  then have "create_document demo_env failing_world ''station'' (Station_dump (hd sample_stations))
      = (Inl (PyException ''connection refused''),
         snd (create_document demo_env failing_world ''station'' (Station_dump (hd sample_stations))))"
    by (simp add: prod_eq_iff)
  with t [of demo_env failing_world "hd sample_stations" demo_feedback]
  have a: "fst (create_station demo_env failing_world (hd sample_stations))
     = HTTPException 400 ''connection refused''"
    by (metis exn.sel fst_conv)
  have f2: "fst (create_document demo_env failing_world ''recommendationfeedback''
                   (Feedback_dump demo_feedback))
              = Inl (PyException ''connection refused'')"
    by (simp add: create_document_def insert_one_def failing_world_def)
  then have "create_document demo_env failing_world ''recommendationfeedback'' (Feedback_dump demo_feedback)
      = (Inl (PyException ''connection refused''),
         snd (create_document demo_env failing_world ''recommendationfeedback''
                (Feedback_dump demo_feedback)))"
    by (simp add: prod_eq_iff)
  with t [of demo_env failing_world "hd sample_stations" demo_feedback]
  have b: "fst (submit_feedback demo_env failing_world demo_feedback)
     = HTTPException 400 ''connection refused''"
    by (metis exn.sel fst_conv)
  have un: "id_unused empty_world ''station''"
    by (simp add: id_unused_def empty_world_def)
  have f3: "fst (create_document demo_env empty_world ''station'' (Station_dump (hd sample_stations)))
              = Inr (hex24 0)"
    by (simp add: create_document_def insert_one_def empty_world_def Station_dump_no_id
        py_str_def Let_def)
  then have "create_document demo_env empty_world ''station'' (Station_dump (hd sample_stations))
      = (Inr (hex24 0),
         snd (create_document demo_env empty_world ''station'' (Station_dump (hd sample_stations))))"
    by (simp add: prod_eq_iff)
  with t [of demo_env empty_world "hd sample_stations" demo_feedback] un
  have c: "fst (create_station demo_env empty_world (hd sample_stations))
     = Response 201 (Some (serialize_doc demo_env
         (Station_dump (hd sample_stations) @ [(''_id'', PObjectId (hex24 0))])))"
    by (metis fst_conv)
  from a b c show ?thesis by blast
qed

end
